theory Spec2Isabelle
  imports Main "HOL-Library.Word"
begin

section \<open>Data model of the GEC flash programmer\<close>

text \<open>
  The C unit keeps three file-level statics (\<open>need_2nd_pass\<close>, \<open>try_latest_firmware\<close>,
  \<open>fwcopy[4]\<close>) and talks to the embedded controller only through the function pointer
  \<open>priv->ec_command\<close>. The model threads a record of the statics through every function and
  adds one ghost field, \<open>sent\<close>: the requests handed to \<open>ec_command\<close> so far, oldest first.
  Checksum verification (\<open>SUPPORT_CHECKSUM\<close>) is not compiled in.
\<close>

type_synonym u8 = "8 word"
type_synonym u16 = "16 word"
type_synonym u32 = "32 word"

text \<open>
  \<open>enum lpc_current_image\<close> as the unit uses it: the indices of \<open>sections[4]\<close>, where index 0
  (\<open>UNKNOWN\<close>) never names a copy.
\<close>

datatype lpc_current_image =
  EC_LPC_IMAGE_UNKNOWN | EC_LPC_IMAGE_RO | EC_LPC_IMAGE_RW_A | EC_LPC_IMAGE_RW_B

text \<open>
  \<open>struct fmap_area\<close>: the declaration lives in \<open>fmap.h\<close>; the fields are the ones the unit
  reads and writes. \<open>name\<close> is the NUL-terminated string that \<open>strcmp\<close> sees.
\<close>

record fmap_area =
  offset :: u32
  size_area :: u32
  name :: string
  flags :: u16

text \<open>\<open>struct fmap\<close>: the area table; \<open>nareas\<close> is the length of the list.\<close>

record fmap =
  areas :: "fmap_area list"

text \<open>
  The requests the unit builds. \<open>FLASH_WRITE\<close> carries the bytes copied into \<open>p.data\<close>;
  \<open>REBOOT_EC\<close> carries \<open>p.target\<close> and \<open>p.reboot_flags\<close>.
\<close>

datatype ec_request =
  FLASH_READ u32 u32
| FLASH_WRITE u32 u32 "u8 list"
| FLASH_ERASE u32 u32
| REBOOT_EC lpc_current_image u8

text \<open>
  \<open>priv->ec_command\<close>: given the requests already sent and the current one, the status
  returned and the contents of the response buffer afterwards (indexed by byte position).
  Any deterministic controller is such a function. \<open>struct gec_priv\<close> is declared in
  \<open>programmer.h\<close>; the unit uses its fields \<open>detected\<close> (tested for non-zero) and
  \<open>ec_command\<close>.
\<close>

type_synonym transport = "ec_request list \<Rightarrow> ec_request \<Rightarrow> int \<times> (nat \<Rightarrow> u8)"

record gec_priv =
  detected :: bool
  ec_command :: transport

record gec_state =
  need_2nd_pass :: int
  try_latest_firmware :: int
  fwcopy :: "lpc_current_image \<Rightarrow> fmap_area"
  sent :: "ec_request list"

definition EC_LPC_RESULT_ACCESS_DENIED :: int where
  "EC_LPC_RESULT_ACCESS_DENIED = 4"

text \<open>
  The capacities of the two data arrays of the header: \<open>uint8_t data[EC_LPC_PARAM_SIZE]\<close> in
  \<open>struct lpc_response_flash_read\<close> and \<open>uint8_t data[64]\<close> in
  \<open>struct lpc_params_flash_write\<close>. A \<open>memcpy\<close> of more bytes than the array holds runs past
  it; the model stops there with the fault \<open>Buffer_Overrun\<close>.
\<close>

definition EC_LPC_PARAM_SIZE :: nat where
  "EC_LPC_PARAM_SIZE = 128"

definition sizeof_write_data :: nat where
  "sizeof_write_data = 64"

datatype fault = Buffer_Overrun

definition sections :: "lpc_current_image \<Rightarrow> string" where
  "sections i = (case i of
      EC_LPC_IMAGE_UNKNOWN \<Rightarrow> ''UNKNOWN SECTION''
    | EC_LPC_IMAGE_RO \<Rightarrow> ''RO_SECTION''
    | EC_LPC_IMAGE_RW_A \<Rightarrow> ''RW_SECTION_A''
    | EC_LPC_IMAGE_RW_B \<Rightarrow> ''RW_SECTION_B'')"

text \<open>The index range \<open>EC_LPC_IMAGE_RO .. ARRAY_SIZE(fwcopy) - 1\<close> of both \<open>for\<close> loops.\<close>

definition copies :: "lpc_current_image list" where
  "copies = [EC_LPC_IMAGE_RO, EC_LPC_IMAGE_RW_A, EC_LPC_IMAGE_RW_B]"

text \<open>One call through \<open>priv->ec_command\<close>: the status, and the state with the request logged.\<close>

definition reply :: "gec_priv \<Rightarrow> gec_state \<Rightarrow> ec_request \<Rightarrow> int" where
  "reply priv st req = fst (ec_command priv (sent st) req)"

definition response :: "gec_priv \<Rightarrow> gec_state \<Rightarrow> ec_request \<Rightarrow> nat \<Rightarrow> u8" where
  "response priv st req = snd (ec_command priv (sent st) req)"

definition issue :: "gec_state \<Rightarrow> ec_request \<Rightarrow> gec_state" where
  "issue st req = st\<lparr>sent := sent st @ [req]\<rparr>"

section \<open>Region registry\<close>

text \<open>
  The condition of \<open>gec_invalidate_copy\<close>, in 32-bit unsigned arithmetic (both sums wrap).
\<close>

definition hits :: "u32 \<Rightarrow> u32 \<Rightarrow> fmap_area \<Rightarrow> bool" where
  "hits addr len fw \<longleftrightarrow>
     (offset fw \<le> addr \<and> addr < offset fw + size_area fw) \<or>
     (addr \<le> offset fw \<and> offset fw < addr + len)"

definition gec_invalidate_copy ::
  "u32 \<Rightarrow> u32 \<Rightarrow> (lpc_current_image \<Rightarrow> fmap_area) \<Rightarrow> lpc_current_image \<Rightarrow> fmap_area" where
  "gec_invalidate_copy addr len fwc =
     fold (\<lambda>i fwc. if hits addr len (fwc i) then fwc(i := (fwc i)\<lparr>flags := 0\<rparr>) else fwc)
       copies fwc"

section \<open>Copy-jump protocol\<close>

text \<open>
  \<open>gec_jump_copy\<close> is only reached after the caller has checked \<open>priv\<close>, so it takes the
  struct itself. The one-second \<open>usleep\<close> after the command has no effect on the state.
\<close>

definition gec_jump_copy ::
  "gec_priv \<Rightarrow> lpc_current_image \<Rightarrow> gec_state \<Rightarrow> int \<times> gec_state" where
  "gec_jump_copy priv target st =
     (let t = (if target \<noteq> EC_LPC_IMAGE_UNKNOWN then target
               else if flags (fwcopy st EC_LPC_IMAGE_RO) \<noteq> 0 then EC_LPC_IMAGE_RO
               else if flags (fwcopy st EC_LPC_IMAGE_RW_A) \<noteq> 0 then EC_LPC_IMAGE_RW_A
               else if flags (fwcopy st EC_LPC_IMAGE_RW_B) \<noteq> 0 then EC_LPC_IMAGE_RW_B
               else EC_LPC_IMAGE_UNKNOWN)
      in if t = EC_LPC_IMAGE_UNKNOWN then (1, st)
         else (reply priv st (REBOOT_EC t 0), issue st (REBOOT_EC t 0)))"

section \<open>Update orchestrator\<close>

text \<open>
  The inner loop of \<open>gec_prepare\<close> for one area of the map: every copy whose section name
  equals the area's name takes the area's fields and is marked new.
\<close>

definition lookup_area ::
  "fmap_area \<Rightarrow> (lpc_current_image \<Rightarrow> fmap_area) \<Rightarrow> lpc_current_image \<Rightarrow> fmap_area" where
  "lookup_area fa fwc =
     fold (\<lambda>j fwc. if sections j = name fa then fwc(j := fa\<lparr>flags := 1\<rparr>) else fwc) copies fwc"

text \<open>
  \<open>fmap_find_in_memory\<close> is defined in another unit; it is a parameter, \<open>None\<close> standing
  for the NULL it returns when the image holds no map.
\<close>

definition gec_prepare ::
  "gec_priv option \<Rightarrow> (u8 list \<Rightarrow> int \<Rightarrow> fmap option) \<Rightarrow> u8 list \<Rightarrow> int \<Rightarrow> gec_state
     \<Rightarrow> int \<times> gec_state" where
  "gec_prepare priv fmap_find_in_memory img sz st =
     (case priv of
        None \<Rightarrow> (0, st)
      | Some p \<Rightarrow>
          if \<not> detected p then (0, st)
          else (case fmap_find_in_memory img sz of
                  None \<Rightarrow> (0, st)
                | Some fm \<Rightarrow>
                    gec_jump_copy p EC_LPC_IMAGE_RO
                      (st\<lparr>fwcopy := fold lookup_area (areas fm) (fwcopy st)\<rparr>)))"

definition gec_need_2nd_pass :: "gec_priv option \<Rightarrow> gec_state \<Rightarrow> int \<times> gec_state" where
  "gec_need_2nd_pass priv st =
     (case priv of
        None \<Rightarrow> (0, st)
      | Some p \<Rightarrow>
          if \<not> detected p then (0, st)
          else if need_2nd_pass st \<noteq> 0 then
            (case gec_jump_copy p EC_LPC_IMAGE_UNKNOWN st of
               (rc, st') \<Rightarrow> if rc \<noteq> 0 then (- 1, st') else (need_2nd_pass st', st'))
          else (need_2nd_pass st, st))"

definition gec_finish :: "gec_priv option \<Rightarrow> gec_state \<Rightarrow> int \<times> gec_state" where
  "gec_finish priv st =
     (case priv of
        None \<Rightarrow> (0, st)
      | Some p \<Rightarrow>
          if \<not> detected p then (0, st)
          else if try_latest_firmware st \<noteq> 0 then
            (let (b, st1) =
                   (if flags (fwcopy st EC_LPC_IMAGE_RW_B) \<noteq> 0
                    then (case gec_jump_copy p EC_LPC_IMAGE_RW_B st of (rc, s) \<Rightarrow> (rc = 0, s))
                    else (False, st))
             in if b then (0, st1)
                else
                  (let (a, st2) =
                         (if flags (fwcopy st1 EC_LPC_IMAGE_RW_A) \<noteq> 0
                          then (case gec_jump_copy p EC_LPC_IMAGE_RW_A st1 of
                                  (rc, s) \<Rightarrow> (rc = 0, s))
                          else (False, st1))
                   in if a then (0, st2) else gec_jump_copy p EC_LPC_IMAGE_RO st2))
          else (0, st))"

section \<open>Flash access engine\<close>

text \<open>
  Caller buffers are memory indexed relative to the pointer passed in; the index is signed
  because the loop counter \<open>i\<close> is an \<open>int\<close>.
\<close>

type_synonym buffer = "int \<Rightarrow> u8"

definition memcpy_from :: "buffer \<Rightarrow> int \<Rightarrow> nat \<Rightarrow> u8 list" where
  "memcpy_from buf i n = map (\<lambda>k. buf (i + int k)) [0..<n]"

definition memcpy_to :: "buffer \<Rightarrow> int \<Rightarrow> (nat \<Rightarrow> u8) \<Rightarrow> nat \<Rightarrow> buffer" where
  "memcpy_to dst i src n =
     (\<lambda>a. if i \<le> a \<and> a < i + int n then src (nat (a - i)) else dst a)"

text \<open>
  \<open>gec_block_erase\<close>, \<open>gec_read\<close> and \<open>gec_write\<close> call through \<open>priv\<close> without a check; they
  take the struct itself. \<open>ACCESS_DENIED\<close> is a macro of another header; its value is the
  parameter \<open>access_denied\<close>.
\<close>

definition gec_block_erase ::
  "int \<Rightarrow> gec_priv \<Rightarrow> u32 \<Rightarrow> u32 \<Rightarrow> gec_state \<Rightarrow> int \<times> gec_state" where
  "gec_block_erase access_denied priv blockaddr len st =
     (let erase = FLASH_ERASE blockaddr len;
          rc = reply priv st erase;
          st1 = issue st erase
      in if rc = EC_LPC_RESULT_ACCESS_DENIED then
           (access_denied,
            st1\<lparr>fwcopy := gec_invalidate_copy blockaddr len (fwcopy st1), need_2nd_pass := 1\<rparr>)
         else if rc \<noteq> 0 then (rc, st1)
         else (rc, st1\<lparr>try_latest_firmware := 1\<rparr>))"

text \<open>
  How control leaves the \<open>for\<close> loop of \<open>gec_write\<close>: by the \<open>return\<close> inside it, or at its
  end (condition false, or \<open>break\<close>) with the current value of \<open>rc\<close>.
\<close>

datatype loop_end = Return int | Fallthrough int

text \<open>
  The loop of \<open>gec_write\<close>. \<open>i\<close> is an \<open>int\<close> compared and added as \<open>unsigned\<close> (the other
  operand is), \<open>maxlen\<close> is an \<open>int\<close> converted to \<open>unsigned\<close> by the comparison inside the
  macro \<open>min\<close> (the smaller of its two arguments); \<open>&buf[i]\<close> reads \<open>i\<close> signed. The
  \<open>memcpy\<close> into \<open>p.data\<close> comes before the request is sent and overruns the array when
  \<open>written\<close> exceeds its 64 bytes. The result \<open>None\<close> is a loop that never ends.
\<close>

partial_function (option) gec_write_loop ::
  "int \<Rightarrow> gec_priv \<Rightarrow> u32 \<Rightarrow> buffer \<Rightarrow> u32 \<Rightarrow> u32 \<Rightarrow> u32 \<Rightarrow> int \<Rightarrow> gec_state
     \<Rightarrow> (fault + loop_end \<times> gec_state) option" where
  "gec_write_loop access_denied priv maxlen buf addr nbytes i rc st =
     (if i < nbytes then
        (let written = min (nbytes - i) maxlen;
             p = FLASH_WRITE (addr + i) written (memcpy_from buf (sint i) (unat written));
             rc1 = reply priv st p;
             st1 = issue st p
         in if sizeof_write_data < unat written then Some (Inl Buffer_Overrun)
            else if rc1 = EC_LPC_RESULT_ACCESS_DENIED then
              Some (Inr (Return access_denied,
                         st1\<lparr>fwcopy := gec_invalidate_copy addr nbytes (fwcopy st1),
                             need_2nd_pass := 1\<rparr>))
            else if rc1 \<noteq> 0 then Some (Inr (Fallthrough rc1, st1))
            else gec_write_loop access_denied priv maxlen buf addr nbytes (i + written) rc1 st1)
      else Some (Inr (Fallthrough rc, st)))"

definition gec_write ::
  "int \<Rightarrow> gec_priv \<Rightarrow> u32 \<Rightarrow> buffer \<Rightarrow> u32 \<Rightarrow> u32 \<Rightarrow> gec_state
     \<Rightarrow> (fault + int \<times> gec_state) option" where
  "gec_write access_denied priv maxlen buf addr nbytes st =
     (case gec_write_loop access_denied priv maxlen buf addr nbytes 0 0 st of
        None \<Rightarrow> None
      | Some (Inl f) \<Rightarrow> Some (Inl f)
      | Some (Inr (Return v, st')) \<Rightarrow> Some (Inr (v, st'))
      | Some (Inr (Fallthrough rc, st')) \<Rightarrow> Some (Inr (rc, st'\<lparr>try_latest_firmware := 1\<rparr>)))"

text \<open>
  The loop of \<open>gec_read\<close>. \<open>i += maxlen\<close> is an \<open>int\<close> addition, taken modulo \<open>2^32\<close> as the
  machine does it; \<open>readarr + i\<close> reads \<open>i\<close> signed. The \<open>memcpy\<close> out of \<open>r.data\<close> comes after
  a successful request and runs past the array when \<open>p.size\<close> exceeds its
  \<open>EC_LPC_PARAM_SIZE\<close> bytes.
\<close>

partial_function (option) gec_read_loop ::
  "gec_priv \<Rightarrow> u32 \<Rightarrow> u32 \<Rightarrow> u32 \<Rightarrow> u32 \<Rightarrow> int \<Rightarrow> buffer \<Rightarrow> gec_state
     \<Rightarrow> (fault + int \<times> buffer \<times> gec_state) option" where
  "gec_read_loop priv maxlen blockaddr readcnt i rc readarr st =
     (if i < readcnt then
        (let p = FLASH_READ (blockaddr + i) (min (readcnt - i) maxlen);
             rc1 = reply priv st p;
             r = response priv st p;
             st1 = issue st p
         in if rc1 \<noteq> 0 then Some (Inr (rc1, readarr, st1))
            else if EC_LPC_PARAM_SIZE < unat (min (readcnt - i) maxlen) then
              Some (Inl Buffer_Overrun)
            else gec_read_loop priv maxlen blockaddr readcnt (i + maxlen) rc1
                   (memcpy_to readarr (sint i) r (unat (min (readcnt - i) maxlen))) st1)
      else Some (Inr (rc, readarr, st)))"

definition gec_read ::
  "gec_priv \<Rightarrow> u32 \<Rightarrow> buffer \<Rightarrow> u32 \<Rightarrow> u32 \<Rightarrow> gec_state
     \<Rightarrow> (fault + int \<times> buffer \<times> gec_state) option" where
  "gec_read priv maxlen readarr blockaddr readcnt st =
     gec_read_loop priv maxlen blockaddr readcnt 0 0 readarr st"

section \<open>Specification-side notions\<close>

text \<open>
  The copy that \<open>jump(unspecified)\<close> is specified to select: the first new one in the order
  RO, RW-A, RW-B.
\<close>

definition first_new :: "(lpc_current_image \<Rightarrow> fmap_area) \<Rightarrow> lpc_current_image option" where
  "first_new fwc = find (\<lambda>i. flags (fwc i) \<noteq> 0) copies"

text \<open>
  Two half-open byte ranges \<open>[a, a + l)\<close> and \<open>[b, b + m)\<close> of natural numbers have a byte
  in common.
\<close>

definition ranges_intersect :: "nat \<Rightarrow> nat \<Rightarrow> nat \<Rightarrow> nat \<Rightarrow> bool" where
  "ranges_intersect a l b m \<longleftrightarrow> max a b < min (a + l) (b + m)"

section \<open>A concrete session\<close>

text \<open>
  The scenario of the specification: an image whose map places RO at \<open>[0, 0x20000)\<close>, RW-A at
  \<open>[0x20000, 0x40000)\<close> and RW-B at \<open>[0x40000, 0x60000)\<close>; the statics as they are at
  process start; controllers that answer every request with one fixed status.
\<close>

definition area0 :: fmap_area where
  "area0 = \<lparr>offset = 0, size_area = 0, name = [], flags = 0\<rparr>"

definition image_fmap :: fmap where
  "image_fmap = \<lparr>areas =
     [\<lparr>offset = 0, size_area = 0x20000, name = ''RO_SECTION'', flags = 0\<rparr>,
      \<lparr>offset = 0x20000, size_area = 0x20000, name = ''RW_SECTION_A'', flags = 0\<rparr>,
      \<lparr>offset = 0x40000, size_area = 0x20000, name = ''RW_SECTION_B'', flags = 0\<rparr>]\<rparr>"

definition fwcopy_new :: "lpc_current_image \<Rightarrow> fmap_area" where
  "fwcopy_new i = (case i of
      EC_LPC_IMAGE_UNKNOWN \<Rightarrow> area0
    | EC_LPC_IMAGE_RO \<Rightarrow> \<lparr>offset = 0, size_area = 0x20000, name = ''RO_SECTION'', flags = 1\<rparr>
    | EC_LPC_IMAGE_RW_A \<Rightarrow>
        \<lparr>offset = 0x20000, size_area = 0x20000, name = ''RW_SECTION_A'', flags = 1\<rparr>
    | EC_LPC_IMAGE_RW_B \<Rightarrow>
        \<lparr>offset = 0x40000, size_area = 0x20000, name = ''RW_SECTION_B'', flags = 1\<rparr>)"

definition session0 :: gec_state where
  "session0 = \<lparr>need_2nd_pass = 0, try_latest_firmware = 0, fwcopy = (\<lambda>_. area0), sent = []\<rparr>"

definition session_new :: gec_state where
  "session_new = \<lparr>need_2nd_pass = 0, try_latest_firmware = 0, fwcopy = fwcopy_new, sent = []\<rparr>"

definition ec_const :: "int \<Rightarrow> transport" where
  "ec_const rc = (\<lambda>h req. (rc, \<lambda>k. 0))"

definition priv_of :: "transport \<Rightarrow> gec_priv" where
  "priv_of tr = \<lparr>detected = True, ec_command = tr\<rparr>"

text \<open>
  A controller that refuses one particular request with the status \<open>EC_LPC_RESULT_ERROR\<close>.
\<close>

definition ec_refuse :: "ec_request \<Rightarrow> transport" where
  "ec_refuse r = (\<lambda>h req. (if req = r then 2 else 0, \<lambda>k. 0))"

section \<open>Chunks in closed form\<close>

text \<open>
  What the specification says of a transfer of \<open>N\<close> bytes with at most \<open>M\<close> bytes per
  request: chunk \<open>k\<close> starts \<open>k * M\<close> bytes into the range and holds the smaller of \<open>M\<close> and
  what is left; there are \<open>ceil (N / M)\<close> chunks.
\<close>

definition chunk_start :: "nat \<Rightarrow> nat \<Rightarrow> nat" where
  "chunk_start M k = k * M"

definition chunk_len :: "nat \<Rightarrow> nat \<Rightarrow> nat \<Rightarrow> nat" where
  "chunk_len N M k = min (N - chunk_start M k) M"

definition chunk_count :: "nat \<Rightarrow> nat \<Rightarrow> nat" where
  "chunk_count N M = (N + M - 1) div M"

definition write_chunk :: "buffer \<Rightarrow> u32 \<Rightarrow> nat \<Rightarrow> nat \<Rightarrow> nat \<Rightarrow> ec_request" where
  "write_chunk buf addr N M k =
     FLASH_WRITE (addr + of_nat (chunk_start M k)) (of_nat (chunk_len N M k))
       (memcpy_from buf (sint (of_nat (chunk_start M k) :: u32)) (chunk_len N M k))"

definition read_chunk :: "u32 \<Rightarrow> nat \<Rightarrow> nat \<Rightarrow> nat \<Rightarrow> ec_request" where
  "read_chunk blockaddr N M k =
     FLASH_READ (blockaddr + of_nat (chunk_start M k)) (of_nat (chunk_len N M k))"

text \<open>The state once the requests \<open>reqs\<close> have been sent after those already logged.\<close>

definition after :: "gec_state \<Rightarrow> ec_request list \<Rightarrow> gec_state" where
  "after st reqs = st\<lparr>sent := sent st @ reqs\<rparr>"


text \<open>
  The byte range a flash request names, relative to a base offset, and the property that a
  list of ranges tiles \<open>[s, e)\<close>: each range is non-empty and starts where the one before
  it ends, the first at \<open>s\<close>, the last ending at \<open>e\<close>.
\<close>

fun req_offset :: "ec_request \<Rightarrow> u32" where
  "req_offset (FLASH_READ off sz) = off"
| "req_offset (FLASH_WRITE off sz d) = off"
| "req_offset (FLASH_ERASE off sz) = off"
| "req_offset (REBOOT_EC t f) = 0"






text \<open>
  A controller that runs from the copy at \<open>[lo, hi)\<close> and denies every erase or write
  starting inside it.
\<close>

definition ec_active :: "u32 \<Rightarrow> u32 \<Rightarrow> transport" where
  "ec_active lo hi = (\<lambda>h req.
     (case req of
        FLASH_ERASE off sz \<Rightarrow> if lo \<le> off \<and> off < hi then 4 else 0
      | FLASH_WRITE off sz d \<Rightarrow> if lo \<le> off \<and> off < hi then 4 else 0
      | _ \<Rightarrow> 0,
      \<lambda>k. 0))"

text \<open>A controller whose flash holds, at every offset, the low byte of that offset.\<close>

definition ec_echo :: transport where
  "ec_echo = (\<lambda>h req. (0, \<lambda>k. of_nat (unat (req_offset req) + k)))"

text \<open>
  A session whose image places RW-B in the last 64 KiB below \<open>2^32\<close>, so that its offset
  and size add up to \<open>2^32\<close>.
\<close>

definition session_high :: gec_state where
  "session_high =
     \<lparr>need_2nd_pass = 0, try_latest_firmware = 0,
      fwcopy = fwcopy_new
        (EC_LPC_IMAGE_RW_B :=
           \<lparr>offset = 0xFFFF0000, size_area = 0x10000, name = ''RW_SECTION_B'', flags = 1\<rparr>),
      sent = []\<rparr>"

text \<open>The session after an erase of \<open>[0, 0x8000)\<close> was denied: RO is old, a second pass is due.\<close>

definition session_denied :: gec_state where
  "session_denied =
     \<lparr>need_2nd_pass = 1, try_latest_firmware = 0,
      fwcopy = gec_invalidate_copy 0 0x8000 fwcopy_new, sent = []\<rparr>"

section \<open>Sequences of calls\<close>

text \<open>
  The calls a session makes after \<open>gec_prepare\<close>, and their effect on the statics. An
  engine call made with a NULL \<open>priv\<close> or overrunning a data array faults, and a call whose
  loop never ends does not return: all three are \<open>None\<close>.
\<close>

datatype gec_op =
  Erase u32 u32
| Write buffer u32 u32
| Read buffer u32 u32
| Jump lpc_current_image
| Need_2nd_pass
| Finish

fun step ::
  "int \<Rightarrow> gec_priv option \<Rightarrow> u32 \<Rightarrow> u32 \<Rightarrow> gec_op \<Rightarrow> gec_state \<Rightarrow> gec_state option" where
  "step ad priv max_read max_write (Erase blockaddr len) st =
     (case priv of None \<Rightarrow> None
      | Some p \<Rightarrow> Some (snd (gec_block_erase ad p blockaddr len st)))"
| "step ad priv max_read max_write (Write buf addr nbytes) st =
     (case priv of None \<Rightarrow> None
      | Some p \<Rightarrow>
          (case gec_write ad p max_write buf addr nbytes st of
             Some (Inr (rc, st')) \<Rightarrow> Some st'
           | _ \<Rightarrow> None))"
| "step ad priv max_read max_write (Read readarr blockaddr readcnt) st =
     (case priv of None \<Rightarrow> None
      | Some p \<Rightarrow>
          (case gec_read p max_read readarr blockaddr readcnt st of
             Some (Inr (rc, readarr', st')) \<Rightarrow> Some st'
           | _ \<Rightarrow> None))"
| "step ad priv max_read max_write (Jump target) st =
     (case priv of None \<Rightarrow> None
      | Some p \<Rightarrow> Some (snd (gec_jump_copy p target st)))"
| "step ad priv max_read max_write Need_2nd_pass st = Some (snd (gec_need_2nd_pass priv st))"
| "step ad priv max_read max_write Finish st = Some (snd (gec_finish priv st))"

fun run ::
  "int \<Rightarrow> gec_priv option \<Rightarrow> u32 \<Rightarrow> u32 \<Rightarrow> gec_op list \<Rightarrow> gec_state \<Rightarrow> gec_state option" where
  "run ad priv max_read max_write [] st = Some st"
| "run ad priv max_read max_write (c # cs) st =
     (case step ad priv max_read max_write c st of
        None \<Rightarrow> None
      | Some st' \<Rightarrow> run ad priv max_read max_write cs st')"

text \<open>
  A read whose count and per-request maximum together stay within 32 bits, and a read or
  write whose chunks fit the data array; every other call is unconstrained.
\<close>

fun op_bounded :: "u32 \<Rightarrow> u32 \<Rightarrow> gec_op \<Rightarrow> bool" where
  "op_bounded max_read max_write (Read readarr blockaddr readcnt) =
     (unat readcnt + unat max_read \<le> 2 ^ 32 \<and>
      min (unat readcnt) (unat max_read) \<le> EC_LPC_PARAM_SIZE)"
| "op_bounded max_read max_write (Write buf addr nbytes) =
     (min (unat nbytes) (unat max_write) \<le> sizeof_write_data)"
| "op_bounded max_read max_write _ = True"

text \<open>A registry \<open>fwc'\<close> differs from \<open>fwc\<close> at most by flags that have been cleared.\<close>

definition only_cleared ::
  "(lpc_current_image \<Rightarrow> fmap_area) \<Rightarrow> (lpc_current_image \<Rightarrow> fmap_area) \<Rightarrow> bool" where
  "only_cleared fwc fwc' \<longleftrightarrow> (\<forall>i. fwc' i = fwc i \<or> fwc' i = (fwc i)\<lparr>flags := 0\<rparr>)"

text \<open>
  From \<open>st\<close> to \<open>st'\<close> the registry has only lost flags and the two session flags have at
  most been set.
\<close>

definition session_le :: "gec_state \<Rightarrow> gec_state \<Rightarrow> bool" where
  "session_le st st' \<longleftrightarrow>
     only_cleared (fwcopy st) (fwcopy st') \<and>
     (need_2nd_pass st' = need_2nd_pass st \<or> need_2nd_pass st' = 1) \<and>
     (try_latest_firmware st' = try_latest_firmware st \<or> try_latest_firmware st' = 1)"

section \<open>The region registry\<close>

lemma ranges_intersect_iff:
  "ranges_intersect a l b m \<longleftrightarrow> {a..<a + l} \<inter> {b..<b + m} \<noteq> {}"
  unfolding ranges_intersect_def by auto

lemma gec_invalidate_copy_apply:
  "gec_invalidate_copy addr len fwc i =
     (if i \<noteq> EC_LPC_IMAGE_UNKNOWN \<and> hits addr len (fwc i)
      then (fwc i)\<lparr>flags := 0\<rparr> else fwc i)"
  by (cases i) (simp_all add: gec_invalidate_copy_def copies_def)

lemma unat_add32:
  "unat (x::u32) + unat y < 2 ^ 32 \<Longrightarrow> unat (x + y) = unat x + unat y"
  using unat_add_lem [of x y] by simp

lemma hits_nat:
  assumes "unat (offset fw) + unat (size_area fw) < 2 ^ 32"
    and "unat addr + unat len < 2 ^ 32"
  shows "hits addr len fw \<longleftrightarrow>
     (unat (offset fw) \<le> unat addr \<and> unat addr < unat (offset fw) + unat (size_area fw)) \<or>
     (unat addr \<le> unat (offset fw) \<and> unat (offset fw) < unat addr + unat len)"
proof -
  have a: "unat (offset fw + size_area fw) = unat (offset fw) + unat (size_area fw)"
    using assms(1) by (rule unat_add32)
  have b: "unat (addr + len) = unat addr + unat len"
    using assms(2) by (rule unat_add32)
  show ?thesis
    by (simp add: hits_def word_le_nat_alt word_less_nat_alt a b)
qed

lemma hits_intersect:
  assumes "unat (offset fw) + unat (size_area fw) < 2 ^ 32"
    and "unat addr + unat len < 2 ^ 32"
    and "len \<noteq> 0" and "size_area fw \<noteq> 0"
  shows "hits addr len fw \<longleftrightarrow>
     ranges_intersect (unat addr) (unat len) (unat (offset fw)) (unat (size_area fw))"
proof -
  have "0 < unat len" "0 < unat (size_area fw)"
    using assms(3,4) by (simp_all add: unat_gt_0)
  then show ?thesis
    unfolding hits_nat [OF assms(1,2)] ranges_intersect_def by auto
qed




section \<open>The copy-jump protocol\<close>

lemma gec_jump_copy_target:
  "target \<noteq> EC_LPC_IMAGE_UNKNOWN \<Longrightarrow>
   gec_jump_copy priv target st = (reply priv st (REBOOT_EC target 0), issue st (REBOOT_EC target 0))"
  by (simp add: gec_jump_copy_def)

lemma gec_jump_copy_unknown:
  "gec_jump_copy priv EC_LPC_IMAGE_UNKNOWN st =
     (case first_new (fwcopy st) of
        None \<Rightarrow> (1, st)
      | Some t \<Rightarrow> (reply priv st (REBOOT_EC t 0), issue st (REBOOT_EC t 0)))"
  by (simp add: gec_jump_copy_def first_new_def copies_def)

text \<open>
  Claim C3. With the target unspecified, \<open>gec_jump_copy\<close> selects the first new copy in the
  order RO, RW-A, RW-B. If there is none it returns 1 and sends nothing; otherwise it sends
  exactly one reboot request naming the selected copy and returns the status of that request.
  It fails without having sent a request exactly when no copy is new.
\<close>

theorem jump_unspecified:
  "gec_jump_copy priv EC_LPC_IMAGE_UNKNOWN st =
     (case first_new (fwcopy st) of
        None \<Rightarrow> (1, st)
      | Some t \<Rightarrow> (reply priv st (REBOOT_EC t 0), st\<lparr>sent := sent st @ [REBOOT_EC t 0]\<rparr>)) \<and>
   (first_new (fwcopy st) = None \<longleftrightarrow>
      flags (fwcopy st EC_LPC_IMAGE_RO) = 0 \<and> flags (fwcopy st EC_LPC_IMAGE_RW_A) = 0 \<and>
      flags (fwcopy st EC_LPC_IMAGE_RW_B) = 0) \<and>
   (first_new (fwcopy st) = None \<longleftrightarrow>
      fst (gec_jump_copy priv EC_LPC_IMAGE_UNKNOWN st) \<noteq> 0 \<and>
      sent (snd (gec_jump_copy priv EC_LPC_IMAGE_UNKNOWN st)) = sent st)"
  by (simp add: gec_jump_copy_def first_new_def copies_def issue_def)

theorem jump_unspecified_witness:
  "gec_jump_copy (priv_of (ec_const 0)) EC_LPC_IMAGE_UNKNOWN session_new =
     (0, session_new\<lparr>sent := [REBOOT_EC EC_LPC_IMAGE_RO 0]\<rparr>) \<and>
   gec_jump_copy (priv_of (ec_const 0)) EC_LPC_IMAGE_UNKNOWN session0 = (1, session0)"
  using jump_unspecified [of "priv_of (ec_const 0)" session_new]
    jump_unspecified [of "priv_of (ec_const 0)" session0]
  by (simp add: first_new_def copies_def session_new_def session0_def fwcopy_new_def area0_def
      reply_def priv_of_def ec_const_def)

section \<open>The update orchestrator\<close>

text \<open>
  Claim C10. While the programmer is not detected (\<open>priv\<close> is NULL or its \<open>detected\<close> flag is
  clear), \<open>gec_prepare\<close>, \<open>gec_need_2nd_pass\<close> and \<open>gec_finish\<close> return 0 and leave the whole
  state as it was: no request is sent, the registry and both flags are unchanged, and the
  result does not depend on the image or on the parser.
\<close>

theorem not_detected_noop:
  assumes "priv = None \<or> (\<exists>p. priv = Some p \<and> \<not> detected p)"
  shows "gec_prepare priv fmap_find_in_memory img sz st = (0, st) \<and>
         gec_need_2nd_pass priv st = (0, st) \<and>
         gec_finish priv st = (0, st)"
  using assms by (auto simp: gec_prepare_def gec_need_2nd_pass_def gec_finish_def)

theorem not_detected_noop_witness:
  "gec_prepare None (\<lambda>_ _. Some image_fmap) [] 0 session_new = (0, session_new) \<and>
   gec_need_2nd_pass None (session_new\<lparr>need_2nd_pass := 1\<rparr>) =
     (0, session_new\<lparr>need_2nd_pass := 1\<rparr>) \<and>
   gec_finish (Some ((priv_of (ec_const 0))\<lparr>detected := False\<rparr>))
       (session_new\<lparr>try_latest_firmware := 1\<rparr>) =
     (0, session_new\<lparr>try_latest_firmware := 1\<rparr>)"
  using not_detected_noop [of None "\<lambda>_ _. Some image_fmap" "[]" 0 session_new]
    not_detected_noop [of None _ _ _ "session_new\<lparr>need_2nd_pass := 1\<rparr>"]
    not_detected_noop [of "Some ((priv_of (ec_const 0))\<lparr>detected := False\<rparr>)" _ _ _
      "session_new\<lparr>try_latest_firmware := 1\<rparr>"]
  by (simp add: priv_of_def)

text \<open>
  Claim C2, as the code has it. With the programmer detected, \<open>gec_prepare\<close> returns 0
  without sending a request or changing the state when the image holds no region map;
  when it holds one, \<open>gec_prepare\<close> fills the registry, sends exactly one reboot request
  naming RO and returns the status of that request.
\<close>

theorem prepare_result:
  assumes "detected p"
  shows "(fmap_find_in_memory img sz = None \<longrightarrow>
            gec_prepare (Some p) fmap_find_in_memory img sz st = (0, st)) \<and>
         (\<forall>fm. fmap_find_in_memory img sz = Some fm \<longrightarrow>
            gec_prepare (Some p) fmap_find_in_memory img sz st =
              (reply p (st\<lparr>fwcopy := fold lookup_area (areas fm) (fwcopy st)\<rparr>)
                 (REBOOT_EC EC_LPC_IMAGE_RO 0),
               st\<lparr>fwcopy := fold lookup_area (areas fm) (fwcopy st),
                  sent := sent st @ [REBOOT_EC EC_LPC_IMAGE_RO 0]\<rparr>))"
  using assms by (simp add: gec_prepare_def gec_jump_copy_target issue_def)

lemma fold_lookup_image: "fold lookup_area (areas image_fmap) (\<lambda>_. area0) = fwcopy_new"
proof
  fix i show "fold lookup_area (areas image_fmap) (\<lambda>_. area0) i = fwcopy_new i"
    by (cases i)
      (simp_all add: image_fmap_def lookup_area_def copies_def sections_def fwcopy_new_def area0_def)
qed

theorem prepare_result_witness:
  "gec_prepare (Some (priv_of (ec_const 0))) (\<lambda>_ _. None) [] 0 session0 = (0, session0) \<and>
   gec_prepare (Some (priv_of (ec_const 2))) (\<lambda>_ _. Some image_fmap) [] 0 session0 =
     (2, session_new\<lparr>sent := [REBOOT_EC EC_LPC_IMAGE_RO 0]\<rparr>)"
  using prepare_result [of "priv_of (ec_const 0)" "\<lambda>_ _. None" "[]" 0 session0]
    prepare_result [of "priv_of (ec_const 2)" "\<lambda>_ _. Some image_fmap" "[]" 0 session0]
  by (simp add: priv_of_def ec_const_def reply_def session0_def session_new_def fold_lookup_image)

text \<open>
  The claim as stated fails in both directions: an image without a map gives the return
  value 0, the value of success, and an image with a map gives a failure when the reboot
  request is refused.
\<close>

theorem prepare_failure_counterexample:
  "(\<lambda>_ _. None :: fmap option) ([] :: u8 list) (0 :: int) = None \<and>
   fst (gec_prepare (Some (priv_of (ec_const 0))) (\<lambda>_ _. None) [] 0 session0) = 0 \<and>
   snd (gec_prepare (Some (priv_of (ec_const 0))) (\<lambda>_ _. None) [] 0 session0) = session0 \<and>
   (\<lambda>_ _. Some image_fmap) ([] :: u8 list) (0 :: int) \<noteq> None \<and>
   fst (gec_prepare (Some (priv_of (ec_const 2))) (\<lambda>_ _. Some image_fmap) [] 0 session0) \<noteq> 0"
  by (simp add: gec_prepare_def priv_of_def gec_jump_copy_target reply_def ec_const_def)

text \<open>
  Claim C4, as the code has it. With the programmer detected and \<open>need_2nd_pass\<close> holding
  one of the two values the unit ever stores in it, \<open>gec_need_2nd_pass\<close> returns 0 exactly
  when the flag is 0, and then does nothing. When the flag is 1 it jumps to the first new
  copy: it returns \<open>-1\<close> when no copy is new (nothing is sent) and also when the reboot
  request is refused, and 1 when the request succeeds.
\<close>

theorem need_2nd_pass_result:
  assumes "detected p" and "need_2nd_pass st = 0 \<or> need_2nd_pass st = 1"
  shows "(fst (gec_need_2nd_pass (Some p) st) = 0 \<longleftrightarrow> need_2nd_pass st = 0) \<and>
         (need_2nd_pass st = 0 \<longrightarrow> gec_need_2nd_pass (Some p) st = (0, st)) \<and>
         (need_2nd_pass st = 1 \<longrightarrow>
            gec_need_2nd_pass (Some p) st =
              (case first_new (fwcopy st) of
                 None \<Rightarrow> (- 1, st)
               | Some t \<Rightarrow>
                   (if reply p st (REBOOT_EC t 0) = 0 then 1 else - 1,
                    st\<lparr>sent := sent st @ [REBOOT_EC t 0]\<rparr>)))"
  using assms
  by (auto simp: gec_need_2nd_pass_def gec_jump_copy_unknown issue_def split: option.splits)

theorem need_2nd_pass_result_witness:
  "gec_need_2nd_pass (Some (priv_of (ec_const 0))) session_new = (0, session_new) \<and>
   gec_need_2nd_pass (Some (priv_of (ec_const 0)))
       (session_new\<lparr>need_2nd_pass := 1,
          fwcopy := gec_invalidate_copy 0 0x8000 fwcopy_new\<rparr>) =
     (1, session_new\<lparr>need_2nd_pass := 1,
          fwcopy := gec_invalidate_copy 0 0x8000 fwcopy_new,
          sent := [REBOOT_EC EC_LPC_IMAGE_RW_A 0]\<rparr>) \<and>
   gec_need_2nd_pass (Some (priv_of (ec_const 0))) (session0\<lparr>need_2nd_pass := 1\<rparr>) =
     (- 1, session0\<lparr>need_2nd_pass := 1\<rparr>)"
  using need_2nd_pass_result [of "priv_of (ec_const 0)" session_new]
    need_2nd_pass_result [of "priv_of (ec_const 0)"
      "session_new\<lparr>need_2nd_pass := 1, fwcopy := gec_invalidate_copy 0 0x8000 fwcopy_new\<rparr>"]
    need_2nd_pass_result [of "priv_of (ec_const 0)" "session0\<lparr>need_2nd_pass := 1\<rparr>"]
  by (simp add: priv_of_def session_new_def session0_def first_new_def copies_def
      gec_invalidate_copy_apply hits_def fwcopy_new_def area0_def reply_def ec_const_def)

text \<open>
  The claim as stated fails where a copy is new but the controller refuses the reboot
  request: the return value is negative although a jump target was selected.
\<close>

theorem need_2nd_pass_counterexample:
  "need_2nd_pass (session_new\<lparr>need_2nd_pass := 1\<rparr>) \<noteq> 0 \<and>
   first_new (fwcopy (session_new\<lparr>need_2nd_pass := 1\<rparr>)) = Some EC_LPC_IMAGE_RO \<and>
   fst (gec_need_2nd_pass (Some (priv_of (ec_const 2))) (session_new\<lparr>need_2nd_pass := 1\<rparr>)) < 0"
  by (simp add: gec_need_2nd_pass_def gec_jump_copy_unknown priv_of_def session_new_def
      first_new_def copies_def fwcopy_new_def reply_def ec_const_def)

text \<open>
  Claim C5. With the programmer detected, \<open>gec_finish\<close> returns 0 at once when
  \<open>try_latest_firmware\<close> is 0. Otherwise it sends a reboot request naming RW-B only if RW-B
  is new and returns 0 with nothing else sent if that succeeds; else it sends one naming
  RW-A only if RW-A is new and returns 0 with no RO request if that succeeds; else it sends
  one naming RO and returns its status unchanged.
\<close>

theorem finish_order:
  fixes p st
  defines "b_new \<equiv> flags (fwcopy st EC_LPC_IMAGE_RW_B) \<noteq> 0"
    and "a_new \<equiv> flags (fwcopy st EC_LPC_IMAGE_RW_A) \<noteq> 0"
  defines "st_b \<equiv> (if b_new then issue st (REBOOT_EC EC_LPC_IMAGE_RW_B 0) else st)"
  defines "st_a \<equiv> (if a_new then issue st_b (REBOOT_EC EC_LPC_IMAGE_RW_A 0) else st_b)"
  defines "b_ok \<equiv> b_new \<and> reply p st (REBOOT_EC EC_LPC_IMAGE_RW_B 0) = 0"
  defines "a_ok \<equiv> a_new \<and> reply p st_b (REBOOT_EC EC_LPC_IMAGE_RW_A 0) = 0"
  assumes "detected p"
  shows "(try_latest_firmware st = 0 \<longrightarrow> gec_finish (Some p) st = (0, st)) \<and>
         (try_latest_firmware st \<noteq> 0 \<and> b_ok \<longrightarrow>
            gec_finish (Some p) st = (0, issue st (REBOOT_EC EC_LPC_IMAGE_RW_B 0))) \<and>
         (try_latest_firmware st \<noteq> 0 \<and> \<not> b_ok \<and> a_ok \<longrightarrow>
            gec_finish (Some p) st = (0, issue st_b (REBOOT_EC EC_LPC_IMAGE_RW_A 0))) \<and>
         (try_latest_firmware st \<noteq> 0 \<and> \<not> b_ok \<and> \<not> a_ok \<longrightarrow>
            gec_finish (Some p) st =
              (reply p st_a (REBOOT_EC EC_LPC_IMAGE_RO 0),
               issue st_a (REBOOT_EC EC_LPC_IMAGE_RO 0)))"
  using assms
  by (auto simp: gec_finish_def gec_jump_copy_target issue_def)

theorem finish_order_witness:
  "gec_finish (Some (priv_of (ec_const 2))) session_new = (0, session_new) \<and>
   gec_finish (Some (priv_of (ec_const 0))) (session_new\<lparr>try_latest_firmware := 1\<rparr>) =
     (0, session_new\<lparr>try_latest_firmware := 1, sent := [REBOOT_EC EC_LPC_IMAGE_RW_B 0]\<rparr>) \<and>
   gec_finish (Some (priv_of (ec_refuse (REBOOT_EC EC_LPC_IMAGE_RW_B 0))))
       (session_new\<lparr>try_latest_firmware := 1\<rparr>) =
     (0, session_new\<lparr>try_latest_firmware := 1,
           sent := [REBOOT_EC EC_LPC_IMAGE_RW_B 0, REBOOT_EC EC_LPC_IMAGE_RW_A 0]\<rparr>) \<and>
   gec_finish (Some (priv_of (ec_const 2))) (session0\<lparr>try_latest_firmware := 1\<rparr>) =
     (2, session0\<lparr>try_latest_firmware := 1, sent := [REBOOT_EC EC_LPC_IMAGE_RO 0]\<rparr>)"
  using finish_order [of "priv_of (ec_const 2)" session_new]
    finish_order [of "priv_of (ec_const 0)" "session_new\<lparr>try_latest_firmware := 1\<rparr>"]
    finish_order [of "priv_of (ec_refuse (REBOOT_EC EC_LPC_IMAGE_RW_B 0))"
      "session_new\<lparr>try_latest_firmware := 1\<rparr>"]
    finish_order [of "priv_of (ec_const 2)" "session0\<lparr>try_latest_firmware := 1\<rparr>"]
  by (simp add: priv_of_def session_new_def session0_def fwcopy_new_def area0_def reply_def
      ec_const_def ec_refuse_def issue_def)

section \<open>The loops of the flash access engine\<close>

lemma unat_of_nat32: "n < 2 ^ 32 \<Longrightarrow> unat (of_nat n :: u32) = n"
  by (simp add: unat_of_nat)

lemma min_word_nat: "min (x::u32) y = of_nat (min (unat x) (unat y))"
  by (simp add: min_def word_le_nat_alt)

lemma sub_word_nat: "unat (b::u32) \<le> unat a \<Longrightarrow> a - b = of_nat (unat a - unat b)"
proof -
  assume le: "unat b \<le> unat a"
  then have "unat (a - b) = unat a - unat b"
    by (simp add: unat_sub word_le_nat_alt)
  moreover have "unat (of_nat (unat a - unat b) :: u32) = unat a - unat b"
    by (rule le_unat_uoi [of _ a]) simp
  ultimately show ?thesis
    by (simp add: word_unat_eq_iff)
qed

lemma unat_lt32: "unat (w :: u32) < 2 ^ 32"
  using unsigned_less [of w, where 'a = nat] by simp

lemma chunk_pos:
  assumes "n < unat (nbytes :: u32)"
  shows "unat (of_nat n :: u32) = n"
    and "(of_nat n :: u32) < nbytes"
    and "min (nbytes - of_nat n) (maxlen :: u32) = of_nat (min (unat nbytes - n) (unat maxlen))"
    and "unat (of_nat (min (unat nbytes - n) (unat maxlen)) :: u32) =
           min (unat nbytes - n) (unat maxlen)"
proof -
  have lt: "n < 2 ^ 32"
    using assms unat_lt32 [of nbytes] by simp
  show u: "unat (of_nat n :: u32) = n"
    using lt by (rule unat_of_nat32)
  show "(of_nat n :: u32) < nbytes"
    using assms by (simp add: word_less_nat_alt u)
  have "nbytes - of_nat n = (of_nat (unat nbytes - n) :: u32)"
    using sub_word_nat [of "of_nat n" nbytes] assms by (simp add: u)
  moreover have "unat nbytes - n < 2 ^ 32"
    using unat_lt32 [of nbytes] by simp
  ultimately show "min (nbytes - of_nat n) maxlen =
           of_nat (min (unat nbytes - n) (unat maxlen))"
    by (simp add: min_word_nat unat_of_nat32)
  have "min (unat nbytes - n) (unat maxlen) < 2 ^ 32"
    using unat_lt32 [of nbytes] by simp
  then show "unat (of_nat (min (unat nbytes - n) (unat maxlen)) :: u32) =
           min (unat nbytes - n) (unat maxlen)"
    by (rule unat_of_nat32)
qed

lemma after_Nil [simp]: "after st [] = st"
  by (simp add: after_def)

lemma issue_after: "issue (after st reqs) p = after st (reqs @ [p])"
  by (simp add: issue_def after_def)

lemma chunk_start_0 [simp]: "chunk_start M 0 = 0"
  by (simp add: chunk_start_def)

lemma chunk_next: "chunk_start M k + chunk_len N M k = min (chunk_start M (Suc k)) N"
  if "chunk_start M k < N"
  using that unfolding chunk_start_def chunk_len_def by (simp add: min_def) arith

lemma write_loop_unfold:
  assumes "chunk_start M k < N" and N: "N = unat nbytes" and M: "M = unat maxlen"
  shows "gec_write_loop ad priv maxlen buf addr nbytes (of_nat (chunk_start M k)) rc st =
     (if sizeof_write_data < chunk_len N M k then Some (Inl Buffer_Overrun)
      else if reply priv st (write_chunk buf addr N M k) = EC_LPC_RESULT_ACCESS_DENIED then
        Some (Inr (Return ad,
              (issue st (write_chunk buf addr N M k))
                \<lparr>fwcopy := gec_invalidate_copy addr nbytes (fwcopy st), need_2nd_pass := 1\<rparr>))
      else if reply priv st (write_chunk buf addr N M k) \<noteq> 0 then
        Some (Inr (Fallthrough (reply priv st (write_chunk buf addr N M k)),
              issue st (write_chunk buf addr N M k)))
      else gec_write_loop ad priv maxlen buf addr nbytes
             (of_nat (min (chunk_start M (Suc k)) N)) 0
             (issue st (write_chunk buf addr N M k)))"
proof -
  have n: "chunk_start M k < unat nbytes"
    using assms by simp
  note c = chunk_pos [OF n]
  have nxt: "(of_nat (chunk_start M k) :: u32) + of_nat (chunk_len N M k) =
               of_nat (min (chunk_start M (Suc k)) N)"
    using chunk_next [OF assms(1)] by (metis of_nat_add)
  have w: "min (nbytes - of_nat (chunk_start M k)) maxlen = of_nat (chunk_len N M k)"
    using c(3) by (simp add: chunk_len_def N M)
  have uw: "unat (of_nat (chunk_len N M k) :: u32) = chunk_len N M k"
    using c(4) by (simp add: chunk_len_def N M)
  show ?thesis
    apply (subst gec_write_loop.simps)
    apply (simp only: c(2) if_True Let_def w uw nxt)
    apply (simp add: write_chunk_def issue_def)
    done
qed

lemma write_loop_prefix:
  assumes N: "N = unat nbytes" and M: "M = unat maxlen"
    and ok: "\<forall>j<k. chunk_start M j < N \<and> chunk_len N M j \<le> sizeof_write_data \<and>
               reply priv (after st (map (write_chunk buf addr N M) [0..<j]))
                 (write_chunk buf addr N M j) = 0"
  shows "gec_write_loop ad priv maxlen buf addr nbytes 0 0 st =
         gec_write_loop ad priv maxlen buf addr nbytes (of_nat (min (chunk_start M k) N)) 0
           (after st (map (write_chunk buf addr N M) [0..<k]))"
  using ok
proof (induction k)
  case 0
  show ?case by simp
next
  case (Suc k)
  have lt: "chunk_start M k < N"
    and fit: "\<not> sizeof_write_data < chunk_len N M k"
    and r: "reply priv (after st (map (write_chunk buf addr N M) [0..<k]))
              (write_chunk buf addr N M k) = 0"
    using Suc.prems by (simp_all add: not_less)
  have "gec_write_loop ad priv maxlen buf addr nbytes 0 0 st =
        gec_write_loop ad priv maxlen buf addr nbytes (of_nat (chunk_start M k)) 0
           (after st (map (write_chunk buf addr N M) [0..<k]))"
    using Suc.IH Suc.prems lt by (simp add: min_def)
  also have "\<dots> = gec_write_loop ad priv maxlen buf addr nbytes
                     (of_nat (min (chunk_start M (Suc k)) N)) 0
                     (after st (map (write_chunk buf addr N M) [0..<Suc k]))"
    by (simp add: write_loop_unfold [OF lt N M] fit r EC_LPC_RESULT_ACCESS_DENIED_def
        issue_after)
  finally show ?case .
qed

lemma write_loop_exit:
  "gec_write_loop ad priv maxlen buf addr nbytes nbytes rc st = Some (Inr (Fallthrough rc, st))"
  by (subst gec_write_loop.simps) simp

lemma chunk_count_less:
  assumes "0 < M" and "j < chunk_count N M"
  shows "chunk_start M j < N"
proof -
  have "Suc j \<le> (N + M - 1) div M"
    using assms(2) by (simp add: chunk_count_def)
  then have "Suc j * M \<le> N + M - 1"
    using assms(1) by (simp add: less_eq_div_iff_mult_less_eq)
  then show ?thesis
    using assms(1) by (simp add: chunk_start_def)
qed

lemma chunk_count_ge:
  assumes "0 < M"
  shows "N \<le> chunk_start M (chunk_count N M)"
    and "chunk_start M (chunk_count N M) < N + M"
proof -
  have "(N + M - 1) div M < Suc (chunk_count N M)"
    by (simp add: chunk_count_def)
  then have "N + M - 1 < Suc (chunk_count N M) * M"
    using assms by (simp only: div_less_iff_less_mult)
  then show "N \<le> chunk_start M (chunk_count N M)"
    using assms by (simp add: chunk_start_def)
  have "chunk_count N M * M \<le> N + M - 1"
    unfolding chunk_count_def by (rule div_times_less_eq_dividend)
  then show "chunk_start M (chunk_count N M) < N + M"
    using assms by (simp add: chunk_start_def)
qed

lemma chunk_len_le_min: "chunk_len N M k \<le> min N M"
  by (simp add: chunk_len_def)

lemma gec_write_all_ok:
  assumes N: "N = unat nbytes" and M: "M = unat maxlen" and pos: "maxlen \<noteq> 0"
    and cap: "min N M \<le> sizeof_write_data"
    and ok: "\<forall>j<chunk_count N M.
               reply priv (after st (map (write_chunk buf addr N M) [0..<j]))
                 (write_chunk buf addr N M j) = 0"
  shows "gec_write ad priv maxlen buf addr nbytes st =
           Some (Inr (0, (after st (map (write_chunk buf addr N M) [0..<chunk_count N M]))
                           \<lparr>try_latest_firmware := 1\<rparr>))"
proof -
  have M0: "0 < M"
    using pos M by (simp add: unat_gt_0)
  have "chunk_len N M j \<le> sizeof_write_data" for j
    using chunk_len_le_min [of N M j] cap by (rule order_trans)
  then have "\<forall>j<chunk_count N M. chunk_start M j < N \<and>
          chunk_len N M j \<le> sizeof_write_data \<and>
          reply priv (after st (map (write_chunk buf addr N M) [0..<j]))
            (write_chunk buf addr N M j) = 0"
    using ok chunk_count_less [OF M0] by blast
  from write_loop_prefix [OF N M this, of ad]
  have "gec_write_loop ad priv maxlen buf addr nbytes 0 0 st =
        gec_write_loop ad priv maxlen buf addr nbytes nbytes 0
          (after st (map (write_chunk buf addr N M) [0..<chunk_count N M]))"
    using chunk_count_ge(1) [OF M0, of N] by (simp add: min_def N)
  then show ?thesis
    by (simp add: gec_write_def write_loop_exit)
qed

lemma gec_write_stops:
  assumes N: "N = unat nbytes" and M: "M = unat maxlen"
    and ok: "\<forall>j<k. chunk_start M j < N \<and> chunk_len N M j \<le> sizeof_write_data \<and>
               reply priv (after st (map (write_chunk buf addr N M) [0..<j]))
                 (write_chunk buf addr N M j) = 0"
    and lt: "chunk_start M k < N"
    and fit: "chunk_len N M k \<le> sizeof_write_data"
    and rc: "reply priv (after st (map (write_chunk buf addr N M) [0..<k]))
               (write_chunk buf addr N M k) = rc" "rc \<noteq> 0"
  shows "gec_write ad priv maxlen buf addr nbytes st =
           (if rc = EC_LPC_RESULT_ACCESS_DENIED then
              Some (Inr (ad, (after st (map (write_chunk buf addr N M) [0..<Suc k]))
                          \<lparr>fwcopy := gec_invalidate_copy addr nbytes (fwcopy st),
                            need_2nd_pass := 1\<rparr>))
            else
              Some (Inr (rc, (after st (map (write_chunk buf addr N M) [0..<Suc k]))
                          \<lparr>try_latest_firmware := 1\<rparr>)))"
proof -
  have nf: "\<not> sizeof_write_data < chunk_len N M k"
    using fit by simp
  have "gec_write_loop ad priv maxlen buf addr nbytes 0 0 st =
        gec_write_loop ad priv maxlen buf addr nbytes (of_nat (chunk_start M k)) 0
          (after st (map (write_chunk buf addr N M) [0..<k]))"
    using write_loop_prefix [OF N M ok, of ad] lt by (simp add: min_def)
  then show ?thesis
    using rc
    by (simp add: gec_write_def write_loop_unfold [OF lt N M] nf issue_def after_def)
qed

lemma read_loop_exit:
  "\<not> i < readcnt \<Longrightarrow>
   gec_read_loop priv maxlen blockaddr readcnt i rc readarr st = Some (Inr (rc, readarr, st))"
  by (subst gec_read_loop.simps) simp

lemma read_loop_unfold:
  assumes "chunk_start M k < N" and N: "N = unat readcnt" and M: "M = unat maxlen"
  shows "gec_read_loop priv maxlen blockaddr readcnt (of_nat (chunk_start M k)) rc readarr st =
     (if reply priv st (read_chunk blockaddr N M k) \<noteq> 0 then
        Some (Inr (reply priv st (read_chunk blockaddr N M k), readarr,
                   issue st (read_chunk blockaddr N M k)))
      else if EC_LPC_PARAM_SIZE < chunk_len N M k then Some (Inl Buffer_Overrun)
      else gec_read_loop priv maxlen blockaddr readcnt (of_nat (chunk_start M (Suc k))) 0
             (memcpy_to readarr (sint (of_nat (chunk_start M k) :: u32))
                (response priv st (read_chunk blockaddr N M k)) (chunk_len N M k))
             (issue st (read_chunk blockaddr N M k)))"
proof -
  have n: "chunk_start M k < unat readcnt"
    using assms by simp
  note c = chunk_pos [OF n]
  have "maxlen = of_nat M"
    by (simp add: M)
  then have nxt: "(of_nat (chunk_start M k) :: u32) + maxlen = of_nat (chunk_start M (Suc k))"
    by (simp add: chunk_start_def)
  have w: "min (readcnt - of_nat (chunk_start M k)) maxlen = of_nat (chunk_len N M k)"
    using c(3) by (simp add: chunk_len_def N M)
  have uw: "unat (of_nat (chunk_len N M k) :: u32) = chunk_len N M k"
    using c(4) by (simp add: chunk_len_def N M)
  show ?thesis
    apply (subst gec_read_loop.simps)
    apply (simp only: c(2) if_True Let_def w uw nxt)
    apply (simp add: read_chunk_def)
    done
qed







lemma chunk_start_mono: "j \<le> k \<Longrightarrow> chunk_start M j \<le> chunk_start M k"
  by (simp add: chunk_start_def)

lemma intersect_hits:
  assumes "unat (offset fw) + unat (size_area fw) < 2 ^ 32"
    and "unat addr + unat len < 2 ^ 32"
    and "ranges_intersect (unat addr) (unat len) (unat (offset fw)) (unat (size_area fw))"
  shows "hits addr len fw"
proof -
  have "len \<noteq> 0" "size_area fw \<noteq> 0"
    using assms(3) by (auto simp: ranges_intersect_def)
  then show ?thesis
    using assms by (simp add: hits_intersect)
qed


lemma upt_0_2: "[0..<2] = [0, Suc 0]"
  by (simp add: numeral_2_eq_2)

lemmas eval_defs = upt_0_2 sizeof_write_data_def EC_LPC_PARAM_SIZE_def
  reply_def response_def priv_of_def ec_active_def ec_const_def ec_echo_def after_def
  session_new_def session0_def write_chunk_def read_chunk_def chunk_start_def chunk_len_def
  memcpy_from_def EC_LPC_RESULT_ACCESS_DENIED_def




lemma reply_const: "reply (priv_of (ec_const c)) st req = c"
  by (simp add: reply_def priv_of_def ec_const_def)

lemma detected_priv_of: "detected (priv_of tr)"
  by (simp add: priv_of_def)

lemma write_example:
  "gec_write ad (priv_of (ec_const 0)) 2 (\<lambda>_. 0xFF) 0x20000 3 st =
     Some (Inr (0, st\<lparr>sent := sent st @ [FLASH_WRITE 0x20000 2 [0xFF, 0xFF],
                                          FLASH_WRITE 0x20002 1 [0xFF]],
                     try_latest_firmware := 1\<rparr>))"
  using gec_write_all_ok [where nbytes = 3 and maxlen = 2 and priv = "priv_of (ec_const 0)"
      and st = st and buf = "\<lambda>_. 0xFF" and addr = "0x20000" and ad = ad, OF refl refl]
  by (simp add: eval_defs chunk_count_def)


section \<open>Termination of the loops\<close>

text \<open>
  With a non-zero per-request maximum and chunks that fit the data array both loops end
  whatever the controller answers, and without a fault; for \<open>gec_read\<close> the counter must in
  addition not wrap, since it advances by the maximum and not by the size of the chunk.
\<close>

lemma write_loop_returns:
  assumes N: "N = unat nbytes" and M: "M = unat maxlen" and M0: "0 < M"
    and cap: "min N M \<le> sizeof_write_data"
    and k: "k \<le> chunk_count N M"
  shows "\<exists>y. gec_write_loop ad priv maxlen buf addr nbytes
               (of_nat (min (chunk_start M k) N)) rc st = Some (Inr y)"
  using k
proof (induction arbitrary: rc st rule: inc_induct)
  case base
  have "min (chunk_start M (chunk_count N M)) N = N"
    using chunk_count_ge(1) [OF M0, of N] by (simp add: min_def)
  then show ?case
    by (simp add: N write_loop_exit)
next
  case (step n)
  have lt: "chunk_start M n < N"
    using chunk_count_less [OF M0 step.hyps(2)] .
  then have m: "min (chunk_start M n) N = chunk_start M n"
    by simp
  have fit: "\<not> sizeof_write_data < chunk_len N M n"
    using chunk_len_le_min [of N M n] cap by linarith
  show ?case
    unfolding m write_loop_unfold [OF lt N M]
    using step.IH fit by simp
qed

lemma gec_write_returns:
  assumes "maxlen \<noteq> 0" and "min (unat nbytes) (unat maxlen) \<le> sizeof_write_data"
  shows "\<exists>r. gec_write ad priv maxlen buf addr nbytes st = Some (Inr r)"
proof -
  have "0 < unat maxlen"
    using assms(1) by (simp add: unat_gt_0)
  from write_loop_returns [OF refl refl this assms(2), of 0 ad priv buf addr 0 st]
  obtain e st' where
    "gec_write_loop ad priv maxlen buf addr nbytes 0 0 st = Some (Inr (e, st'))"
    by auto
  then show ?thesis
    by (cases e) (simp_all add: gec_write_def)
qed

lemma read_loop_returns:
  assumes N: "N = unat readcnt" and M: "M = unat maxlen" and M0: "0 < M"
    and bound: "N + M \<le> 2 ^ 32" and cap: "min N M \<le> EC_LPC_PARAM_SIZE"
    and k: "k \<le> chunk_count N M"
  shows "\<exists>y. gec_read_loop priv maxlen blockaddr readcnt
               (of_nat (chunk_start M k)) rc readarr st = Some (Inr y)"
  using k
proof (induction arbitrary: rc readarr st rule: inc_induct)
  case base
  have "chunk_start M (chunk_count N M) < 2 ^ 32"
    using chunk_count_ge(2) [OF M0, of N] bound by simp
  then have "unat (of_nat (chunk_start M (chunk_count N M)) :: u32) =
               chunk_start M (chunk_count N M)"
    by (rule unat_of_nat32)
  then have "\<not> (of_nat (chunk_start M (chunk_count N M)) :: u32) < readcnt"
    using chunk_count_ge(1) [OF M0, of N] by (simp add: word_less_nat_alt N)
  then show ?case
    by (simp add: read_loop_exit)
next
  case (step n)
  have lt: "chunk_start M n < N"
    using chunk_count_less [OF M0 step.hyps(2)] .
  have fit: "\<not> EC_LPC_PARAM_SIZE < chunk_len N M n"
    using chunk_len_le_min [of N M n] cap by linarith
  show ?case
    unfolding read_loop_unfold [OF lt N M]
    using step.IH fit by simp
qed

lemma gec_read_returns:
  assumes "maxlen \<noteq> 0" and "unat readcnt + unat maxlen \<le> 2 ^ 32"
    and "min (unat readcnt) (unat maxlen) \<le> EC_LPC_PARAM_SIZE"
  shows "\<exists>r. gec_read priv maxlen readarr blockaddr readcnt st = Some (Inr r)"
proof -
  have "0 < unat maxlen"
    using assms(1) by (simp add: unat_gt_0)
  from read_loop_returns [OF refl refl this assms(2,3), of 0 priv blockaddr 0 readarr st]
  show ?thesis
    by (simp add: gec_read_def)
qed


section \<open>Access denied\<close>

text \<open>
  Claim C1, as the code has it. When the controller answers
  \<open>EC_LPC_RESULT_ACCESS_DENIED\<close> to the erase request, or to chunk \<open>k\<close> of a write whose
  earlier chunks succeeded and whose chunks up to \<open>k\<close> fit the 64 bytes of \<open>p.data\<close>, the
  call applies \<open>gec_invalidate_copy\<close> to the original offset and length (not to the chunk),
  sets \<open>need_2nd_pass\<close>, sends nothing after the denied request and returns
  \<open>ACCESS_DENIED\<close>. Any other non-zero status is returned as it is. Every copy whose range
  intersects the requested range is old afterwards, provided neither range reaches \<open>2^32\<close>.
\<close>

theorem access_denied_handling:
  fixes priv :: gec_priv and st :: gec_state and buf :: buffer
    and addr nbytes maxlen blockaddr len :: u32
  defines "N \<equiv> unat nbytes" and "M \<equiv> unat maxlen"
  defines "w \<equiv> write_chunk buf addr N M"
  defines "e \<equiv> FLASH_ERASE blockaddr len"
  shows
   "(reply priv st e = EC_LPC_RESULT_ACCESS_DENIED \<longrightarrow>
       gec_block_erase ad priv blockaddr len st =
         (ad, st\<lparr>sent := sent st @ [e],
                 fwcopy := gec_invalidate_copy blockaddr len (fwcopy st),
                 need_2nd_pass := 1\<rparr>)) \<and>
    (reply priv st e \<noteq> EC_LPC_RESULT_ACCESS_DENIED \<and> reply priv st e \<noteq> 0 \<longrightarrow>
       gec_block_erase ad priv blockaddr len st = (reply priv st e, st\<lparr>sent := sent st @ [e]\<rparr>)) \<and>
    ((\<forall>j<k. reply priv (after st (map w [0..<j])) (w j) = 0) \<and> chunk_start M k < N \<and>
     (\<forall>j\<le>k. chunk_len N M j \<le> sizeof_write_data) \<and>
     reply priv (after st (map w [0..<k])) (w k) = EC_LPC_RESULT_ACCESS_DENIED \<longrightarrow>
       gec_write ad priv maxlen buf addr nbytes st =
         Some (Inr (ad, st\<lparr>sent := sent st @ map w [0..<Suc k],
                            fwcopy := gec_invalidate_copy addr nbytes (fwcopy st),
                            need_2nd_pass := 1\<rparr>))) \<and>
    ((\<forall>j<k. reply priv (after st (map w [0..<j])) (w j) = 0) \<and> chunk_start M k < N \<and>
     (\<forall>j\<le>k. chunk_len N M j \<le> sizeof_write_data) \<and>
     reply priv (after st (map w [0..<k])) (w k) \<noteq> EC_LPC_RESULT_ACCESS_DENIED \<and>
     reply priv (after st (map w [0..<k])) (w k) \<noteq> 0 \<longrightarrow>
       (case gec_write ad priv maxlen buf addr nbytes st of
          Some (Inr (v, st')) \<Rightarrow>
            v = reply priv (after st (map w [0..<k])) (w k) \<and>
            sent st' = sent st @ map w [0..<Suc k]
        | _ \<Rightarrow> False)) \<and>
    (\<forall>i \<in> set copies.
       unat a + unat l < 2 ^ 32 \<and> unat (offset (fwc i)) + unat (size_area (fwc i)) < 2 ^ 32 \<and>
       ranges_intersect (unat a) (unat l) (unat (offset (fwc i))) (unat (size_area (fwc i))) \<longrightarrow>
       flags (gec_invalidate_copy a l fwc i) = 0)"
proof -
  have erase_denied: "gec_block_erase ad priv blockaddr len st =
         (ad, st\<lparr>sent := sent st @ [e],
                 fwcopy := gec_invalidate_copy blockaddr len (fwcopy st),
                 need_2nd_pass := 1\<rparr>)"
    if "reply priv st e = EC_LPC_RESULT_ACCESS_DENIED"
    using that by (simp add: gec_block_erase_def e_def issue_def Let_def)
  have erase_error: "gec_block_erase ad priv blockaddr len st =
         (reply priv st e, st\<lparr>sent := sent st @ [e]\<rparr>)"
    if "reply priv st e \<noteq> EC_LPC_RESULT_ACCESS_DENIED" "reply priv st e \<noteq> 0"
    using that by (simp add: gec_block_erase_def e_def issue_def Let_def)
  have stops: "gec_write ad priv maxlen buf addr nbytes st =
           (if rc = EC_LPC_RESULT_ACCESS_DENIED then
              Some (Inr (ad, (after st (map w [0..<Suc k]))
                          \<lparr>fwcopy := gec_invalidate_copy addr nbytes (fwcopy st),
                            need_2nd_pass := 1\<rparr>))
            else
              Some (Inr (rc, (after st (map w [0..<Suc k]))\<lparr>try_latest_firmware := 1\<rparr>)))"
    if ok: "\<forall>j<k. reply priv (after st (map w [0..<j])) (w j) = 0"
      and lt: "chunk_start M k < N"
      and fit: "\<forall>j\<le>k. chunk_len N M j \<le> sizeof_write_data"
      and rc: "reply priv (after st (map w [0..<k])) (w k) = rc" "rc \<noteq> 0" for rc
  proof -
    have "chunk_start M j < N" if "j < k" for j
      using that lt chunk_start_mono [of j k M] by simp
    then have "\<forall>j<k. chunk_start M j < N \<and> chunk_len N M j \<le> sizeof_write_data \<and>
                 reply priv (after st (map w [0..<j])) (w j) = 0"
      using ok fit by simp
    then show ?thesis
      unfolding w_def
      by (intro gec_write_stops) (use lt fit rc in \<open>simp_all add: N_def M_def w_def\<close>)
  qed
  have write_denied: "gec_write ad priv maxlen buf addr nbytes st =
         Some (Inr (ad, st\<lparr>sent := sent st @ map w [0..<Suc k],
                            fwcopy := gec_invalidate_copy addr nbytes (fwcopy st),
                            need_2nd_pass := 1\<rparr>))"
    if "\<forall>j<k. reply priv (after st (map w [0..<j])) (w j) = 0" "chunk_start M k < N"
      "\<forall>j\<le>k. chunk_len N M j \<le> sizeof_write_data"
      "reply priv (after st (map w [0..<k])) (w k) = EC_LPC_RESULT_ACCESS_DENIED"
    using stops [OF that(1,2,3,4)]
    by (simp add: EC_LPC_RESULT_ACCESS_DENIED_def after_def)
  have write_error:
    "case gec_write ad priv maxlen buf addr nbytes st of
          Some (Inr (v, st')) \<Rightarrow>
            v = reply priv (after st (map w [0..<k])) (w k) \<and>
            sent st' = sent st @ map w [0..<Suc k]
        | _ \<Rightarrow> False"
    if "\<forall>j<k. reply priv (after st (map w [0..<j])) (w j) = 0" "chunk_start M k < N"
      "\<forall>j\<le>k. chunk_len N M j \<le> sizeof_write_data"
      "reply priv (after st (map w [0..<k])) (w k) \<noteq> EC_LPC_RESULT_ACCESS_DENIED"
      "reply priv (after st (map w [0..<k])) (w k) \<noteq> 0"
    using stops [OF that(1,2,3) refl that(5)] that(4)
    by (simp add: after_def)
  have stale: "flags (gec_invalidate_copy a l fwc i) = 0"
    if "unat a + unat l < 2 ^ 32" "unat (offset (fwc i)) + unat (size_area (fwc i)) < 2 ^ 32"
      "ranges_intersect (unat a) (unat l) (unat (offset (fwc i))) (unat (size_area (fwc i)))"
      "i \<in> set copies" for i
    using intersect_hits [OF that(2,1,3)] that(4)
    by (auto simp: gec_invalidate_copy_apply copies_def)
  show ?thesis
    using erase_denied erase_error write_denied write_error stale by blast
qed

lemma all_le_1: "(\<forall>j\<le>Suc 0. P j) \<longleftrightarrow> P 0 \<and> P (Suc 0)"
  by (auto simp: le_Suc_eq)

theorem access_denied_handling_witness:
  "gec_block_erase (- 7) (priv_of (ec_active 0x20000 0x40000)) 0x20000 0x8000 session_new =
     (- 7, session_new\<lparr>sent := [FLASH_ERASE 0x20000 0x8000],
             fwcopy := gec_invalidate_copy 0x20000 0x8000 fwcopy_new, need_2nd_pass := 1\<rparr>) \<and>
   gec_block_erase (- 7) (priv_of (ec_const 2)) 0x20000 0x8000 session_new =
     (2, session_new\<lparr>sent := [FLASH_ERASE 0x20000 0x8000]\<rparr>) \<and>
   gec_write (- 7) (priv_of (ec_active 0x20000 0x40000)) 2 (\<lambda>_. 0xFF) 0x1FFFE 4 session_new =
     Some (Inr (- 7, session_new\<lparr>sent := [FLASH_WRITE 0x1FFFE 2 [0xFF, 0xFF],
                                             FLASH_WRITE 0x20000 2 [0xFF, 0xFF]],
                  fwcopy := gec_invalidate_copy 0x1FFFE 4 fwcopy_new, need_2nd_pass := 1\<rparr>)) \<and>
   (case gec_write (- 7) (priv_of (ec_const 2)) 2 (\<lambda>_. 0xFF) 0x1FFFE 4 session_new of
      Some (Inr (v, st')) \<Rightarrow> v = 2 \<and> sent st' = [FLASH_WRITE 0x1FFFE 2 [0xFF, 0xFF]]
    | _ \<Rightarrow> False) \<and>
   flags (gec_invalidate_copy 0x1FFFE 4 fwcopy_new EC_LPC_IMAGE_RO) = 0 \<and>
   flags (gec_invalidate_copy 0x1FFFE 4 fwcopy_new EC_LPC_IMAGE_RW_A) = 0"
proof -
  note t1 = access_denied_handling [where priv = "priv_of (ec_active 0x20000 0x40000)"
      and st = session_new and ad = "- 7" and blockaddr = "0x20000" and len = "0x8000"
      and maxlen = 2 and buf = "\<lambda>_. 0xFF" and addr = "0x1FFFE" and nbytes = 4 and k = 1
      and a = "0x1FFFE" and l = 4 and fwc = fwcopy_new]
  note t2 = access_denied_handling [where priv = "priv_of (ec_const 2)"
      and st = session_new and ad = "- 7" and blockaddr = "0x20000" and len = "0x8000"
      and maxlen = 2 and buf = "\<lambda>_. 0xFF" and addr = "0x1FFFE" and nbytes = 4 and k = 0
      and a = "0x1FFFE" and l = 4 and fwc = fwcopy_new]
  have a: "gec_block_erase (- 7) (priv_of (ec_active 0x20000 0x40000)) 0x20000 0x8000 session_new =
     (- 7, session_new\<lparr>sent := [FLASH_ERASE 0x20000 0x8000],
             fwcopy := gec_invalidate_copy 0x20000 0x8000 fwcopy_new, need_2nd_pass := 1\<rparr>)"
    using t1 [THEN conjunct1] by (simp add: eval_defs)
  have b: "gec_block_erase (- 7) (priv_of (ec_const 2)) 0x20000 0x8000 session_new =
     (2, session_new\<lparr>sent := [FLASH_ERASE 0x20000 0x8000]\<rparr>)"
    using t2 [THEN conjunct2, THEN conjunct1] by (simp add: eval_defs)
  have c: "gec_write (- 7) (priv_of (ec_active 0x20000 0x40000)) 2 (\<lambda>_. 0xFF) 0x1FFFE 4 session_new =
     Some (Inr (- 7, session_new\<lparr>sent := [FLASH_WRITE 0x1FFFE 2 [0xFF, 0xFF],
                                             FLASH_WRITE 0x20000 2 [0xFF, 0xFF]],
                  fwcopy := gec_invalidate_copy 0x1FFFE 4 fwcopy_new, need_2nd_pass := 1\<rparr>))"
    using t1 [THEN conjunct2, THEN conjunct2, THEN conjunct1]
    by (simp add: eval_defs all_le_1)
  have d: "case gec_write (- 7) (priv_of (ec_const 2)) 2 (\<lambda>_. 0xFF) 0x1FFFE 4 session_new of
      Some (Inr (v, st')) \<Rightarrow> v = 2 \<and> sent st' = [FLASH_WRITE 0x1FFFE 2 [0xFF, 0xFF]]
    | _ \<Rightarrow> False"
    using t2 [THEN conjunct2, THEN conjunct2, THEN conjunct2, THEN conjunct1]
    by (auto simp: eval_defs split: option.splits sum.splits)
  have e: "flags (gec_invalidate_copy 0x1FFFE 4 fwcopy_new EC_LPC_IMAGE_RO) = 0 \<and>
     flags (gec_invalidate_copy 0x1FFFE 4 fwcopy_new EC_LPC_IMAGE_RW_A) = 0"
    using t1 [THEN conjunct2, THEN conjunct2, THEN conjunct2, THEN conjunct2]
    by (simp add: copies_def fwcopy_new_def ranges_intersect_def)
  show ?thesis
    using a b c d e by simp
qed

text \<open>
  The claim as stated fails where a range reaches \<open>2^32\<close>: the sum \<open>fw->offset + fw->size\<close>
  of the test wraps to 0, so a denied erase inside a copy that ends at \<open>2^32\<close> returns
  \<open>ACCESS_DENIED\<close> and leaves that copy new although the two ranges intersect.
\<close>

theorem access_denied_wrap_counterexample:
  "reply (priv_of (ec_const 4)) session_high (FLASH_ERASE 0xFFFF8000 0x10) =
     EC_LPC_RESULT_ACCESS_DENIED \<and>
   ranges_intersect (unat (0xFFFF8000 :: u32)) (unat (0x10 :: u32))
     (unat (offset (fwcopy session_high EC_LPC_IMAGE_RW_B)))
     (unat (size_area (fwcopy session_high EC_LPC_IMAGE_RW_B))) \<and>
   fst (gec_block_erase (- 7) (priv_of (ec_const 4)) 0xFFFF8000 0x10 session_high) = - 7 \<and>
   flags (fwcopy (snd (gec_block_erase (- 7) (priv_of (ec_const 4)) 0xFFFF8000 0x10
                          session_high))
            EC_LPC_IMAGE_RW_B) = 1"
  by (simp add: gec_block_erase_def Let_def issue_def reply_const
      EC_LPC_RESULT_ACCESS_DENIED_def session_high_def ranges_intersect_def
      gec_invalidate_copy_apply hits_def)

section \<open>The flag \<open>try_latest_firmware\<close>\<close>

text \<open>An erase sets the flag exactly when its request succeeds.\<close>

lemma erase_flag:
  "try_latest_firmware (snd (gec_block_erase ad priv blockaddr len st)) =
     (if reply priv st (FLASH_ERASE blockaddr len) = 0 then 1 else try_latest_firmware st)"
  by (simp add: gec_block_erase_def Let_def issue_def EC_LPC_RESULT_ACCESS_DENIED_def)

text \<open>
  Claim C6 fails on the code. A write whose only request is refused with a status other
  than access-denied leaves the loop by \<open>break\<close> and still runs \<open>try_latest_firmware = 1\<close>:
  the flag is set although no request of the call succeeded. \<open>gec_block_erase\<close> returns
  before the assignment in the same situation and leaves the flag alone.
\<close>

theorem write_error_sets_flag:
  "gec_write (- 7) (priv_of (ec_const 2)) 64 (\<lambda>_. 0xFF) 0x20000 1 session_new =
     Some (Inr (2, session_new\<lparr>sent := [FLASH_WRITE 0x20000 1 [0xFF]],
                     try_latest_firmware := 1\<rparr>)) \<and>
   gec_block_erase (- 7) (priv_of (ec_const 2)) 0x20000 0x8000 session_new =
     (2, session_new\<lparr>sent := [FLASH_ERASE 0x20000 0x8000]\<rparr>)"
proof -
  have "gec_write (- 7) (priv_of (ec_const 2)) 64 (\<lambda>_. 0xFF) 0x20000 1 session_new =
     Some (Inr (2, session_new\<lparr>sent := [FLASH_WRITE 0x20000 1 [0xFF]],
                     try_latest_firmware := 1\<rparr>))"
    using gec_write_stops [where nbytes = 1 and maxlen = 64 and k = 0 and rc = 2
        and priv = "priv_of (ec_const 2)" and st = session_new and buf = "\<lambda>_. 0xFF"
        and addr = "0x20000" and ad = "- 7", OF refl refl]
    by (simp add: eval_defs)
  moreover have "gec_block_erase (- 7) (priv_of (ec_const 2)) 0x20000 0x8000 session_new =
     (2, session_new\<lparr>sent := [FLASH_ERASE 0x20000 0x8000]\<rparr>)"
    by (simp add: gec_block_erase_def Let_def issue_def eval_defs)
  ultimately show ?thesis by simp
qed

section \<open>Chunking\<close>






lemma reply_ok: "\<forall>h req. fst (ec_command priv h req) = 0 \<Longrightarrow> reply priv st req = 0"
  by (simp add: reply_def)

lemma sent_after [simp]: "sent (after st reqs) = sent st @ reqs"
  by (simp add: after_def)









section \<open>Freshness is never restored\<close>

lemma only_cleared_refl [simp]: "only_cleared fwc fwc"
  by (simp add: only_cleared_def)

lemma only_cleared_trans:
  "only_cleared f g \<Longrightarrow> only_cleared g h \<Longrightarrow> only_cleared f h"
  unfolding only_cleared_def
proof
  fix i
  assume a: "\<forall>i. g i = f i \<or> g i = (f i)\<lparr>flags := 0\<rparr>"
    and b: "\<forall>i. h i = g i \<or> h i = (g i)\<lparr>flags := 0\<rparr>"
  from a [rule_format, of i] b [rule_format, of i]
  show "h i = f i \<or> h i = (f i)\<lparr>flags := 0\<rparr>"
    by auto
qed

lemma only_cleared_invalidate: "only_cleared fwc (gec_invalidate_copy addr len fwc)"
  by (simp add: only_cleared_def gec_invalidate_copy_apply)

lemma session_le_refl [simp]: "session_le st st"
  by (simp add: session_le_def)

lemma session_le_trans:
  assumes "session_le a b" and "session_le b c"
  shows "session_le a c"
proof -
  have "only_cleared (fwcopy a) (fwcopy c)"
    using assms only_cleared_trans [of "fwcopy a" "fwcopy b" "fwcopy c"]
    by (simp add: session_le_def)
  moreover have "need_2nd_pass c = need_2nd_pass a \<or> need_2nd_pass c = 1"
    using assms unfolding session_le_def by metis
  moreover have "try_latest_firmware c = try_latest_firmware a \<or> try_latest_firmware c = 1"
    using assms unfolding session_le_def by metis
  ultimately show ?thesis
    by (simp add: session_le_def)
qed

lemma session_le_issue [simp]: "session_le st (issue st req)"
  by (simp add: session_le_def issue_def)

lemma jump_le: "session_le st (snd (gec_jump_copy p target st))"
  by (simp add: gec_jump_copy_def Let_def)

lemma erase_le: "session_le st (snd (gec_block_erase ad p blockaddr len st))"
  by (simp add: gec_block_erase_def Let_def session_le_def issue_def only_cleared_invalidate)

lemma need_2nd_pass_le: "session_le st (snd (gec_need_2nd_pass priv st))"
proof -
  have "session_le st s" if "gec_jump_copy p EC_LPC_IMAGE_UNKNOWN st = (rc, s)" for p rc s
    using jump_le [of st p EC_LPC_IMAGE_UNKNOWN] that by simp
  then show ?thesis
    by (auto simp: gec_need_2nd_pass_def split: option.splits prod.splits)
qed

lemma finish_le: "session_le st (snd (gec_finish priv st))"
proof (cases priv)
  case None
  then show ?thesis by (simp add: gec_finish_def)
next
  case (Some p)
  show ?thesis
  proof (cases "detected p")
    case True
    have "session_le st (issue (issue st a) b)" "session_le st (issue (issue (issue st a) b) c)"
      for a b c
      by (simp_all add: session_le_def issue_def)
    then show ?thesis
      using True Some by (auto simp: gec_finish_def gec_jump_copy_target)
  next
    case False
    then show ?thesis using Some by (simp add: gec_finish_def)
  qed
qed

lemma write_loop_le:
  assumes "gec_write_loop ad priv maxlen buf addr nbytes i rc st = Some y"
  shows "\<forall>z. y = Inr z \<longrightarrow> session_le st (snd z)"
proof (induction ad priv maxlen buf addr nbytes i rc st y rule: gec_write_loop.raw_induct)
  case (1 loop ad priv maxlen buf addr nbytes i rc st y)
  note body = "1.hyps" and IH = "1.IH"
  define p where "p = FLASH_WRITE (addr + i) (min (nbytes - i) maxlen)
      (memcpy_from buf (sint i) (unat (min (nbytes - i) maxlen)))"
  consider "\<not> i < nbytes"
    | "i < nbytes" "sizeof_write_data < unat (min (nbytes - i) maxlen)"
    | "i < nbytes" "\<not> sizeof_write_data < unat (min (nbytes - i) maxlen)"
      "reply priv st p = EC_LPC_RESULT_ACCESS_DENIED"
    | "i < nbytes" "\<not> sizeof_write_data < unat (min (nbytes - i) maxlen)"
      "reply priv st p \<noteq> EC_LPC_RESULT_ACCESS_DENIED" "reply priv st p \<noteq> 0"
    | "i < nbytes" "\<not> sizeof_write_data < unat (min (nbytes - i) maxlen)"
      "reply priv st p = 0"
    by (auto simp: EC_LPC_RESULT_ACCESS_DENIED_def)
  then show ?case
  proof cases
    case 1
    then show ?thesis using body by auto
  next
    case 2
    then show ?thesis using body by (auto simp: Let_def)
  next
    case 3
    then show ?thesis
      using body
      by (auto simp: Let_def p_def session_le_def issue_def only_cleared_invalidate)
  next
    case 4
    then show ?thesis
      using body by (auto simp: Let_def p_def)
  next
    case 5
    then have "loop ad priv maxlen buf addr nbytes (i + min (nbytes - i) maxlen) 0 (issue st p) =
                 Some y"
      using body
      by (simp add: Let_def p_def EC_LPC_RESULT_ACCESS_DENIED_def)
    from IH [OF this] show ?thesis
      using session_le_trans [OF session_le_issue] by blast
  qed
qed (fact assms)

lemma write_le:
  assumes "gec_write ad priv maxlen buf addr nbytes st = Some (Inr r)"
  shows "session_le st (snd r)"
proof -
  obtain e st1 where
    l: "gec_write_loop ad priv maxlen buf addr nbytes 0 0 st = Some (Inr (e, st1))"
    using assms by (auto simp: gec_write_def split: option.splits sum.splits)
  from write_loop_le [OF l] have le: "session_le st st1" by simp
  have "session_le st1 (snd r)"
    using assms l by (cases e) (auto simp: gec_write_def session_le_def)
  with le show ?thesis by (rule session_le_trans)
qed

lemma read_loop_le:
  assumes "gec_read_loop priv maxlen blockaddr readcnt i rc readarr st = Some y"
  shows "\<forall>z. y = Inr z \<longrightarrow> session_le st (snd (snd z))"
proof (induction priv maxlen blockaddr readcnt i rc readarr st y rule: gec_read_loop.raw_induct)
  case (1 loop priv maxlen blockaddr readcnt i rc readarr st y)
  note body = "1.hyps" and IH = "1.IH"
  define p where "p = FLASH_READ (blockaddr + i) (min (readcnt - i) maxlen)"
  consider "\<not> i < readcnt"
    | "i < readcnt" "reply priv st p \<noteq> 0"
    | "i < readcnt" "reply priv st p = 0"
      "EC_LPC_PARAM_SIZE < unat (min (readcnt - i) maxlen)"
    | "i < readcnt" "reply priv st p = 0"
      "\<not> EC_LPC_PARAM_SIZE < unat (min (readcnt - i) maxlen)"
    by auto
  then show ?case
  proof cases
    case 1
    then show ?thesis using body by auto
  next
    case 2
    then show ?thesis using body by (auto simp: Let_def p_def)
  next
    case 3
    then show ?thesis using body by (auto simp: Let_def p_def)
  next
    case 4
    then have "loop priv maxlen blockaddr readcnt (i + maxlen) 0
                 (memcpy_to readarr (sint i) (response priv st p)
                    (unat (min (readcnt - i) maxlen))) (issue st p) = Some y"
      using body by (simp add: Let_def p_def)
    from IH [OF this] show ?thesis
      using session_le_trans [OF session_le_issue] by blast
  qed
qed (fact assms)

lemma step_le:
  "step ad priv max_read max_write c st = Some st' \<Longrightarrow> session_le st st'"
proof (cases c)
  case (Erase blockaddr len)
  assume "step ad priv max_read max_write c st = Some st'"
  then show ?thesis
    using Erase erase_le by (auto split: option.splits)
next
  case (Write buf addr nbytes)
  assume "step ad priv max_read max_write c st = Some st'"
  then obtain p rc where "gec_write ad p max_write buf addr nbytes st = Some (Inr (rc, st'))"
    using Write by (auto split: option.splits sum.splits)
  from write_le [OF this] show ?thesis
    by simp
next
  case (Read readarr blockaddr readcnt)
  assume "step ad priv max_read max_write c st = Some st'"
  then obtain p rc readarr' where
    "gec_read_loop p max_read blockaddr readcnt 0 0 readarr st = Some (Inr (rc, readarr', st'))"
    using Read by (auto simp: gec_read_def split: option.splits sum.splits)
  from read_loop_le [OF this] show ?thesis
    by simp
next
  case (Jump target)
  assume "step ad priv max_read max_write c st = Some st'"
  then show ?thesis
    using Jump jump_le by (auto split: option.splits)
next
  case Need_2nd_pass
  assume "step ad priv max_read max_write c st = Some st'"
  then show ?thesis
    using Need_2nd_pass need_2nd_pass_le by auto
next
  case Finish
  assume "step ad priv max_read max_write c st = Some st'"
  then show ?thesis
    using Finish finish_le by auto
qed

lemma run_le:
  "run ad priv max_read max_write cs st = Some st' \<Longrightarrow> session_le st st'"
proof (induction cs arbitrary: st)
  case Nil
  then show ?case by simp
next
  case (Cons c cs)
  then obtain st1 where s: "step ad priv max_read max_write c st = Some st1"
    and r: "run ad priv max_read max_write cs st1 = Some st'"
    by (auto split: option.splits)
  from step_le [OF s] Cons.IH [OF r] show ?case
    by (rule session_le_trans)
qed


lemma step_returns:
  assumes "max_read \<noteq> 0" and "max_write \<noteq> 0" and "op_bounded max_read max_write c"
  shows "\<exists>st'. step ad (Some p) max_read max_write c st = Some st'"
proof (cases c)
  case (Write buf addr nbytes)
  then show ?thesis
    using gec_write_returns [OF assms(2), of nbytes ad p buf addr st] assms(3) by auto
next
  case (Read readarr blockaddr readcnt)
  then show ?thesis
    using gec_read_returns [OF assms(1), of readcnt p readarr blockaddr st] assms(3) by auto
qed simp_all

lemma run_returns:
  assumes "max_read \<noteq> 0" and "max_write \<noteq> 0"
    and "\<forall>c \<in> set cs. op_bounded max_read max_write c"
  shows "\<exists>st'. run ad (Some p) max_read max_write cs st = Some st'"
  using assms(3)
proof (induction cs arbitrary: st)
  case Nil
  show ?case by simp
next
  case (Cons c cs)
  obtain st1 where "step ad (Some p) max_read max_write c st = Some st1"
    using step_returns [OF assms(1,2), of c ad p st] Cons.prems by auto
  then show ?case
    using Cons.IH [of st1] Cons.prems by simp
qed

text \<open>
  Claim C9. \<open>gec_invalidate_copy\<close> only clears flags, and over every sequence of erase,
  write, read, jump, need-second-pass and finish calls that returns, the registry changes
  only by flags being cleared: a copy that is old stays old, and no offset or size changes.
  \<open>gec_prepare\<close>, which is not among these calls, is the one function that stores a non-zero
  flag.
\<close>

theorem stale_stays_stale:
  assumes "run ad priv max_read max_write cs st = Some st'"
  shows "only_cleared fwc (gec_invalidate_copy a l fwc) \<and>
         only_cleared (fwcopy st) (fwcopy st') \<and>
         (\<forall>i. flags (fwcopy st i) = 0 \<longrightarrow> flags (fwcopy st' i) = 0) \<and>
         (\<forall>i. offset (fwcopy st' i) = offset (fwcopy st i) \<and>
              size_area (fwcopy st' i) = size_area (fwcopy st i))"
proof -
  have oc: "only_cleared (fwcopy st) (fwcopy st')"
    using run_le [OF assms] by (simp add: session_le_def)
  have "flags (fwcopy st' i) = 0" if "flags (fwcopy st i) = 0" for i
    using oc [unfolded only_cleared_def, rule_format, of i] that by auto
  moreover have "offset (fwcopy st' i) = offset (fwcopy st i) \<and>
              size_area (fwcopy st' i) = size_area (fwcopy st i)" for i
    using oc [unfolded only_cleared_def, rule_format, of i] by auto
  ultimately show ?thesis using oc only_cleared_invalidate by blast
qed

theorem stale_stays_stale_witness:
  "run (- 7) (Some (priv_of (ec_const 0))) 2 2
       [Erase 0x20000 0x8000, Write (\<lambda>_. 0xFF) 0x20000 3, Jump EC_LPC_IMAGE_UNKNOWN,
        Need_2nd_pass, Finish]
       session_denied =
     Some (session_denied
             \<lparr>try_latest_firmware := 1,
              sent := [FLASH_ERASE 0x20000 0x8000, FLASH_WRITE 0x20000 2 [0xFF, 0xFF],
                       FLASH_WRITE 0x20002 1 [0xFF], REBOOT_EC EC_LPC_IMAGE_RW_A 0,
                       REBOOT_EC EC_LPC_IMAGE_RW_A 0, REBOOT_EC EC_LPC_IMAGE_RW_B 0]\<rparr>) \<and>
   flags (fwcopy session_denied EC_LPC_IMAGE_RO) = 0 \<and>
   flags (fwcopy (session_denied
             \<lparr>try_latest_firmware := 1,
              sent := [FLASH_ERASE 0x20000 0x8000, FLASH_WRITE 0x20000 2 [0xFF, 0xFF],
                       FLASH_WRITE 0x20002 1 [0xFF], REBOOT_EC EC_LPC_IMAGE_RW_A 0,
                       REBOOT_EC EC_LPC_IMAGE_RW_A 0, REBOOT_EC EC_LPC_IMAGE_RW_B 0]\<rparr>)
            EC_LPC_IMAGE_RO) = 0 \<and>
   flags (fwcopy (snd (gec_prepare (Some (priv_of (ec_const 0))) (\<lambda>_ _. Some image_fmap) [] 0
                         session_denied))
            EC_LPC_IMAGE_RO) = 1"
proof -
  have p: "flags (fwcopy (snd (gec_prepare (Some (priv_of (ec_const 0)))
                                 (\<lambda>_ _. Some image_fmap) [] 0 session_denied))
                   EC_LPC_IMAGE_RO) = 1"
    by (simp add: gec_prepare_def detected_priv_of gec_jump_copy_target issue_def image_fmap_def
        lookup_area_def copies_def sections_def)
  have r: "run (- 7) (Some (priv_of (ec_const 0))) 2 2
       [Erase 0x20000 0x8000, Write (\<lambda>_. 0xFF) 0x20000 3, Jump EC_LPC_IMAGE_UNKNOWN,
        Need_2nd_pass, Finish]
       session_denied =
     Some (session_denied
             \<lparr>try_latest_firmware := 1,
              sent := [FLASH_ERASE 0x20000 0x8000, FLASH_WRITE 0x20000 2 [0xFF, 0xFF],
                       FLASH_WRITE 0x20002 1 [0xFF], REBOOT_EC EC_LPC_IMAGE_RW_A 0,
                       REBOOT_EC EC_LPC_IMAGE_RW_A 0, REBOOT_EC EC_LPC_IMAGE_RW_B 0]\<rparr>)"
    by (simp add: write_example gec_block_erase_def Let_def issue_def gec_jump_copy_def
        gec_need_2nd_pass_def gec_finish_def session_denied_def gec_invalidate_copy_apply
        hits_def fwcopy_new_def reply_const detected_priv_of
        EC_LPC_RESULT_ACCESS_DENIED_def)
  have z: "flags (fwcopy session_denied EC_LPC_IMAGE_RO) = 0"
    by (simp add: session_denied_def gec_invalidate_copy_apply hits_def fwcopy_new_def)
  from stale_stays_stale [OF r] z p show ?thesis
    using r by simp
qed

end
